theory Spec2Isabelle
  imports Main "HOL-Library.Sublist"
begin

section \<open>JavaScript strings\<close>

text \<open>
  A JavaScript string is a sequence of code units; the model writes it as a \<^typ>\<open>string\<close>
  and reads every \<^typ>\<open>char\<close> as an ASCII code unit. The regular expressions of
  \<^verbatim>\<open>server.js\<close> have no \<^verbatim>\<open>u\<close> flag and match one code unit at a time, so a
  global replace of a one-character pattern is a map over the code units. Case mapping
  is the ASCII one: on the letters \<open>a\<close> to \<open>z\<close> and \<open>A\<close> to \<open>Z\<close> it is what
  \<^verbatim>\<open>toUpperCase\<close> and \<^verbatim>\<open>toLowerCase\<close> do, and every other ASCII code unit is
  left as it is. Text outside ASCII is outside the model.
\<close>

abbreviation backslash :: char where "backslash \<equiv> CHR 0x5C"
abbreviation LF :: char where "LF \<equiv> CHR 0x0A"
abbreviation CR :: char where "CR \<equiv> CHR 0x0D"

text \<open>\<^verbatim>\<open>s.replace(/c/g, r)\<close> for a one-character pattern \<open>c\<close> and a replacement without \<^verbatim>\<open>$\<close>.\<close>

definition replaceAll :: "char \<Rightarrow> string \<Rightarrow> string \<Rightarrow> string" where
  "replaceAll c r s = concat (map (\<lambda>x. if x = c then r else [x]) s)"

definition isDigit :: "char \<Rightarrow> bool" where
  "isDigit c = (c \<in> set ''0123456789'')"

definition isUpper :: "char \<Rightarrow> bool" where
  "isUpper c = (c \<in> set ''ABCDEFGHIJKLMNOPQRSTUVWXYZ'')"

definition isLower :: "char \<Rightarrow> bool" where
  "isLower c = (c \<in> set ''abcdefghijklmnopqrstuvwxyz'')"

text \<open>The character class \<^verbatim>\<open>[a-zA-Z0-9]\<close>.\<close>

definition isAlnum :: "char \<Rightarrow> bool" where
  "isAlnum c = (isLower c \<or> isUpper c \<or> isDigit c)"

definition toLowerChar :: "char \<Rightarrow> char" where
  "toLowerChar c =
     (case map_of (zip ''ABCDEFGHIJKLMNOPQRSTUVWXYZ'' ''abcdefghijklmnopqrstuvwxyz'') c of
        Some l \<Rightarrow> l
      | None \<Rightarrow> c)"

definition toUpperChar :: "char \<Rightarrow> char" where
  "toUpperChar c =
     (case map_of (zip ''abcdefghijklmnopqrstuvwxyz'' ''ABCDEFGHIJKLMNOPQRSTUVWXYZ'') c of
        Some u \<Rightarrow> u
      | None \<Rightarrow> c)"

definition toLowerCase :: "string \<Rightarrow> string" where
  "toLowerCase s = map toLowerChar s"

definition toUpperCase :: "string \<Rightarrow> string" where
  "toUpperCase s = map toUpperChar s"

text \<open>
  A number in a template literal. The numbers that reach one here are integers
  (\<^verbatim>\<open>yearInt\<close>, an array length), printed in decimal with a minus sign when negative.
\<close>

definition digitChar :: "nat \<Rightarrow> char" where
  "digitChar d = ''0123456789'' ! d"

fun showNat :: "nat \<Rightarrow> string" where
  "showNat n = (if n < 10 then [digitChar n] else showNat (n div 10) @ [digitChar (n mod 10)])"

declare showNat.simps [simp del]

definition showInt :: "int \<Rightarrow> string" where
  "showInt i = (if i < 0 then CHR ''-'' # showNat (nat (- i)) else showNat (nat i))"

text \<open>\<^verbatim>\<open>Array.prototype.join\<close> on an array of strings.\<close>

fun joinWith :: "string \<Rightarrow> string list \<Rightarrow> string" where
  "joinWith sep [] = []"
| "joinWith sep [x] = x"
| "joinWith sep (x # y # ys) = x @ sep @ joinWith sep (y # ys)"

text \<open>
  The truthiness test \<^verbatim>\<open>if (v)\<close> on an optional string: \<^verbatim>\<open>undefined\<close> and the
  empty string are falsy, every other string is truthy.
\<close>

definition truthy :: "string option \<Rightarrow> bool" where
  "truthy v = (case v of None \<Rightarrow> False | Some s \<Rightarrow> s \<noteq> [])"

section \<open>The data model\<close>

text \<open>
  A holiday record as \<^verbatim>\<open>generateICS\<close> reads it: \<open>date\<close>, \<open>name\<close> and \<open>type\<close> are
  strings (the encoder calls string methods on them without a test), \<open>description\<close>
  and \<open>observed\<close> may be \<^verbatim>\<open>undefined\<close>.
\<close>

record holiday =
  date :: string
  name :: string
  description :: "string option"
  type :: string
  observed :: "string option"

text \<open>
  A holiday object as the resolver hands it over: the mapping of a source's answer copies
  \<open>date\<close> and \<open>name\<close> from the item, and an item without them gives an object where
  they are \<^verbatim>\<open>undefined\<close>. \<open>objectOf\<close> is a complete record seen as such an object.
\<close>

record holidayObject =
  objDate :: "string option"
  objName :: "string option"
  objDescription :: "string option"
  objType :: string
  objObserved :: "string option"

definition objectOf :: "holiday \<Rightarrow> holidayObject" where
  "objectOf h =
     \<lparr>objDate = Some (date h), objName = Some (name h), objDescription = description h,
      objType = type h, objObserved = observed h\<rparr>"

text \<open>The options of \<^verbatim>\<open>generateICS\<close>, which are also the validated query.\<close>

record options =
  country :: string
  year :: int
  region :: "string option"

section \<open>The ICS encoder\<close>

text \<open>
  \<^verbatim>\<open>
  function generateUID(holiday, country, year) {
      const dateStr = holiday.date.replace(/-/g, '');
      const nameHash = holiday.name.replace(/[^a-zA-Z0-9]/g, '').toLowerCase();
      return `${dateStr}-${nameHash}-${country}-${year}@holiday-calendar-api.com`;
  }
  \<close>
\<close>

definition generateUID :: "holiday \<Rightarrow> string \<Rightarrow> int \<Rightarrow> string" where
  "generateUID h c y =
     (let dateStr = replaceAll (CHR ''-'') [] (date h);
          nameHash = toLowerCase (filter isAlnum (name h))
      in dateStr @ ''-'' @ nameHash @ ''-'' @ c @ ''-'' @ showInt y
           @ ''@holiday-calendar-api.com'')"

definition formatDate :: "string \<Rightarrow> string" where
  "formatDate dateStr = replaceAll (CHR ''-'') [] dateStr"

text \<open>
  A \<^verbatim>\<open>Date\<close> is modelled by the string its \<^verbatim>\<open>toISOString()\<close> returns, such as
  \<^verbatim>\<open>2025-01-01T12:34:56.789Z\<close>.
  \<^verbatim>\<open>
  function formatDateTimeUTC(date) {
      return date.toISOString().replace(/[-:]/g, '').replace(/\.\d{3}/, '');
  }
  \<close>
  The second replace has no \<^verbatim>\<open>g\<close> flag: it removes the first dot that three digits
  follow, with the digits.
\<close>

type_synonym jsdate = string

fun removeMillis :: "string \<Rightarrow> string" where
  "removeMillis [] = []"
| "removeMillis (c # cs) =
     (if c = CHR ''.'' \<and> 3 \<le> length cs \<and> list_all isDigit (take 3 cs) then drop 3 cs
      else c # removeMillis cs)"

definition formatDateTimeUTC :: "jsdate \<Rightarrow> string" where
  "formatDateTimeUTC d = removeMillis (filter (\<lambda>c. c \<notin> set ''-:'') d)"

text \<open>
  \<^verbatim>\<open>
  function escapeText(text) {
      return text
          .replace(/\\/g, '\\\\')
          .replace(/;/g, '\\;')
          .replace(/,/g, '\\,')
          .replace(/\n/g, '\\n')
          .replace(/\r/g, '');
  }
  \<close>
  Five passes over the whole string, in this order.
\<close>

definition escapeText :: "string \<Rightarrow> string" where
  "escapeText text =
     replaceAll CR []
       (replaceAll LF [backslash, CHR ''n'']
         (replaceAll (CHR '','') [backslash, CHR '','']
           (replaceAll (CHR '';'') [backslash, CHR '';'']
             (replaceAll backslash [backslash, backslash] text))))"

text \<open>
  The escaping rule as the specification words it: every character of the input is
  looked at once, on its own.
\<close>

definition escapeRule :: "char \<Rightarrow> string" where
  "escapeRule c =
     (if c = backslash then [backslash, backslash]
      else if c = CHR '';'' then [backslash, CHR '';'']
      else if c = CHR '','' then [backslash, CHR '','']
      else if c = LF then [backslash, CHR ''n'']
      else if c = CR then []
      else [c])"

text \<open>
  The wall clock: \<open>clk k\<close> is what the \<open>k\<close>-th next \<^verbatim>\<open>new Date()\<close> would return. A
  call reads \<open>clk 0\<close> and leaves the clock one reading further.
\<close>

type_synonym clock = "nat \<Rightarrow> jsdate"

definition newDate :: "clock \<Rightarrow> jsdate \<times> clock" where
  "newDate clk = (clk 0, \<lambda>k. clk (Suc k))"

definition calendarName :: "options \<Rightarrow> string" where
  "calendarName opts =
     (if truthy (region opts)
      then country opts @ ''-'' @ the (region opts) @ '' Public Holidays '' @ showInt (year opts)
      else country opts @ '' Public Holidays '' @ showInt (year opts))"

definition calendarHeader :: "options \<Rightarrow> string list" where
  "calendarHeader opts =
     (let prodId = ''-//Holiday Calendar API//Holiday Calendar '' @ showInt (year opts) @ ''//EN''
      in [''BEGIN:VCALENDAR'',
          ''VERSION:2.0'',
          ''PRODID:'' @ prodId,
          ''CALSCALE:GREGORIAN'',
          ''METHOD:PUBLISH'',
          ''X-WR-CALNAME:'' @ calendarName opts,
          ''X-WR-CALDESC:Public holidays calendar generated by Holiday Calendar API'',
          ''X-WR-TIMEZONE:UTC'',
          ''X-PUBLISHED-TTL:PT1H'',
          ''X-ORIGINAL-URL:https://rapidapi.com/holiday-calendar-api''])"

text \<open>
  The body of the \<^verbatim>\<open>forEach\<close> callback: the array \<open>icsContent\<close> before the record is
  handled, and the array after its pushes.
\<close>

definition pushEvent :: "string \<Rightarrow> string \<Rightarrow> int \<Rightarrow> string list \<Rightarrow> holiday \<Rightarrow> string list" where
  "pushEvent timestamp c y icsContent h =
     (let uid = generateUID h c y;
          dtstart = formatDate (date h);
          ics1 = icsContent @
            [''BEGIN:VEVENT'',
             ''UID:'' @ uid,
             ''DTSTAMP:'' @ timestamp,
             ''DTSTART;VALUE=DATE:'' @ dtstart,
             ''SUMMARY:'' @ escapeText (name h),
             ''STATUS:CONFIRMED'',
             ''TRANSP:TRANSPARENT'',
             ''CLASS:PUBLIC'',
             ''PRIORITY:5''];
          ics2 = (if truthy (description h)
                  then ics1 @ [''DESCRIPTION:'' @ escapeText (the (description h))]
                  else ics1);
          category = toUpperCase (type h);
          ics3 = ics2 @ [''CATEGORIES:'' @ category @ '',HOLIDAY''];
          ics4 = (if truthy (observed h) \<and> observed h \<noteq> Some (date h)
                  then ics3 @ [''X-OBSERVED-DATE:'' @ formatDate (the (observed h))]
                  else ics3)
      in ics4 @ [''END:VEVENT''])"

text \<open>The array \<open>icsContent\<close> at the end of \<^verbatim>\<open>generateICS\<close>, \<open>now\<close> being the clock reading.\<close>

definition icsContent :: "jsdate \<Rightarrow> holiday list \<Rightarrow> options \<Rightarrow> string list" where
  "icsContent now holidays opts =
     (let timestamp = formatDateTimeUTC now
      in foldl (pushEvent timestamp (country opts) (year opts)) (calendarHeader opts) holidays
           @ [''END:VCALENDAR''])"

definition generateICS :: "clock \<Rightarrow> holiday list \<Rightarrow> options \<Rightarrow> string \<times> clock" where
  "generateICS clk holidays opts =
     (let (now, clk') = newDate clk
      in (joinWith [CR, LF] (icsContent now holidays opts), clk'))"

text \<open>
  The lines one record contributes, and a reader of a document's lines that collects
  each run from a \<^verbatim>\<open>BEGIN:VEVENT\<close> line to the next \<^verbatim>\<open>END:VEVENT\<close> line.
\<close>

definition eventBlock :: "string \<Rightarrow> string \<Rightarrow> int \<Rightarrow> holiday \<Rightarrow> string list" where
  "eventBlock timestamp c y h = pushEvent timestamp c y [] h"

fun scanBlocks :: "string list option \<Rightarrow> string list \<Rightarrow> string list list" where
  "scanBlocks cur [] = []"
| "scanBlocks None (l # ls) =
     (if l = ''BEGIN:VEVENT'' then scanBlocks (Some [l]) ls else scanBlocks None ls)"
| "scanBlocks (Some b) (l # ls) =
     (if l = ''END:VEVENT'' then (b @ [l]) # scanBlocks None ls
      else scanBlocks (Some (b @ [l])) ls)"

definition eventBlocks :: "string list \<Rightarrow> string list list" where
  "eventBlocks ls = scanBlocks None ls"

definition isStamp :: "string \<Rightarrow> bool" where
  "isStamp l = prefix ''DTSTAMP:'' l"


text \<open>The lines of a block between its first and its last.\<close>

definition eventBody :: "string \<Rightarrow> string \<Rightarrow> int \<Rightarrow> holiday \<Rightarrow> string list" where
  "eventBody timestamp c y h = butlast (tl (eventBlock timestamp c y h))"

text \<open>Two lines are the same, or both are \<^verbatim>\<open>DTSTAMP\<close> lines.\<close>

definition sameButStamp :: "string \<Rightarrow> string \<Rightarrow> bool" where
  "sameButStamp a b = (a = b \<or> (isStamp a \<and> isStamp b))"

text \<open>
  A well-formed calendar date of the data model, \<^verbatim>\<open>YYYY-MM-DD\<close>: the shape of every
  \<open>date\<close> in the static table.
\<close>

fun isoDate :: "string \<Rightarrow> bool" where
  "isoDate [y1, y2, y3, y4, s1, m1, m2, s2, d1, d2] =
     (list_all isDigit [y1, y2, y3, y4, m1, m2, d1, d2] \<and> s1 = CHR ''-'' \<and> s2 = CHR ''-'')"
| "isoDate _ = False"

text \<open>
  A reader of the rendered text: the text cut at every CRLF. A string, a record and the
  options are plain when no carriage return stands in a field that is written to a line
  as it is.
\<close>

fun splitCRLF :: "string \<Rightarrow> string \<Rightarrow> string list" where
  "splitCRLF cur [] = [cur]"
| "splitCRLF cur [c] = [cur @ [c]]"
| "splitCRLF cur (c # d # rest) =
     (if c = CR \<and> d = LF then cur # splitCRLF [] rest else splitCRLF (cur @ [c]) (d # rest))"

definition noCR :: "string \<Rightarrow> bool" where
  "noCR s = (CR \<notin> set s)"

definition plainHoliday :: "holiday \<Rightarrow> bool" where
  "plainHoliday h =
     (noCR (date h) \<and> noCR (type h) \<and> (case observed h of None \<Rightarrow> True | Some d \<Rightarrow> noCR d))"

definition plainOptions :: "options \<Rightarrow> bool" where
  "plainOptions opts =
     (noCR (country opts) \<and> (case region opts of None \<Rightarrow> True | Some r \<Rightarrow> noCR r))"

section \<open>The holiday resolver\<close>

text \<open>The static table \<^verbatim>\<open>enhancedHolidays\<close>; no entry has an \<open>observed\<close> field.\<close>

definition entry :: "string \<Rightarrow> string \<Rightarrow> string \<Rightarrow> string \<Rightarrow> holiday" where
  "entry d n ds t = \<lparr>date = d, name = n, description = Some ds, type = t, observed = None\<rparr>"

definition enhancedHolidaysTable :: "(string \<times> holiday list) list" where
  "enhancedHolidaysTable =
     [(''US-2025'',
       [entry ''2025-01-01'' ''New Year's Day''
          ''The first day of the Gregorian calendar year'' ''public'',
        entry ''2025-01-20'' ''Martin Luther King Jr. Day''
          ''Federal holiday honoring civil rights leader Martin Luther King Jr.'' ''public'',
        entry ''2025-02-17'' ''Presidents' Day''
          ''Federal holiday honoring all U.S. presidents'' ''public'',
        entry ''2025-05-26'' ''Memorial Day''
          ''Federal holiday honoring military personnel who died in service'' ''public'',
        entry ''2025-07-04'' ''Independence Day''
          ''Celebration of American independence from Great Britain'' ''public'',
        entry ''2025-09-01'' ''Labor Day''
          ''Federal holiday celebrating the contributions of workers'' ''public'',
        entry ''2025-10-13'' ''Columbus Day''
          ''Federal holiday commemorating Christopher Columbus'' ''public'',
        entry ''2025-11-11'' ''Veterans Day''
          ''Federal holiday honoring military veterans'' ''public'',
        entry ''2025-11-27'' ''Thanksgiving Day''
          ''Federal holiday for giving thanks and sharing meals with family'' ''public'',
        entry ''2025-12-25'' ''Christmas Day''
          ''Christian holiday celebrating the birth of Jesus Christ'' ''public'']),
      (''GB-2025'',
       [entry ''2025-01-01'' ''New Year's Day''
          ''The first day of the Gregorian calendar year'' ''public'',
        entry ''2025-04-18'' ''Good Friday''
          ''Christian holiday commemorating the crucifixion of Jesus'' ''public'',
        entry ''2025-04-21'' ''Easter Monday''
          ''Christian holiday celebrating the resurrection of Jesus'' ''public'',
        entry ''2025-05-05'' ''Early May Bank Holiday''
          ''Spring bank holiday in the UK'' ''bank'',
        entry ''2025-05-26'' ''Spring Bank Holiday''
          ''Late spring bank holiday in the UK'' ''bank'',
        entry ''2025-08-25'' ''Summer Bank Holiday''
          ''Summer bank holiday in England, Wales, and Northern Ireland'' ''bank'',
        entry ''2025-12-25'' ''Christmas Day''
          ''Christian holiday celebrating the birth of Jesus Christ'' ''public'',
        entry ''2025-12-26'' ''Boxing Day''
          ''Traditional holiday following Christmas Day'' ''public'']),
      (''CA-2025'',
       [entry ''2025-01-01'' ''New Year's Day''
          ''The first day of the Gregorian calendar year'' ''public'',
        entry ''2025-04-18'' ''Good Friday''
          ''Christian holiday commemorating the crucifixion of Jesus'' ''public'',
        entry ''2025-04-21'' ''Easter Monday''
          ''Christian holiday celebrating the resurrection of Jesus'' ''public'',
        entry ''2025-05-19'' ''Victoria Day''
          ''Canadian federal holiday honoring Queen Victoria'' ''public'',
        entry ''2025-07-01'' ''Canada Day''
          ''National holiday celebrating Canadian Confederation'' ''public'',
        entry ''2025-09-01'' ''Labour Day''
          ''Federal holiday celebrating the contributions of workers'' ''public'',
        entry ''2025-10-13'' ''Thanksgiving''
          ''Canadian holiday for giving thanks'' ''public'',
        entry ''2025-11-11'' ''Remembrance Day''
          ''Memorial day for military personnel who died in service'' ''public'',
        entry ''2025-12-25'' ''Christmas Day''
          ''Christian holiday celebrating the birth of Jesus Christ'' ''public'',
        entry ''2025-12-26'' ''Boxing Day''
          ''Traditional holiday following Christmas Day'' ''public'']),
      (''DE-2025'',
       [entry ''2025-01-01'' ''New Year's Day''
          ''The first day of the Gregorian calendar year'' ''public'',
        entry ''2025-05-01'' ''Labour Day''
          ''German holiday celebrating workers'' ''public'',
        entry ''2025-10-03'' ''German Unity Day''
          ''National holiday commemorating German reunification'' ''public'',
        entry ''2025-12-25'' ''Christmas Day''
          ''Christian holiday celebrating the birth of Jesus Christ'' ''public'',
        entry ''2025-12-26'' ''Boxing Day''
          ''Second day of Christmas'' ''public'']),
      (''FR-2025'',
       [entry ''2025-01-01'' ''New Year's Day''
          ''The first day of the Gregorian calendar year'' ''public'',
        entry ''2025-05-01'' ''Labour Day''
          ''French holiday celebrating workers'' ''public'',
        entry ''2025-05-08'' ''Victory in Europe Day''
          ''Commemorates the end of World War II in Europe'' ''public'',
        entry ''2025-07-14'' ''Bastille Day''
          ''French National Day'' ''public'',
        entry ''2025-08-15'' ''Assumption Day''
          ''Christian holiday'' ''public'',
        entry ''2025-11-01'' ''All Saints Day''
          ''Christian holiday honoring all saints'' ''public'',
        entry ''2025-11-11'' ''Armistice Day''
          ''Commemorates the end of World War I'' ''public'',
        entry ''2025-12-25'' ''Christmas Day''
          ''Christian holiday celebrating the birth of Jesus Christ'' ''public''])]"

text \<open>
  \<^verbatim>\<open>enhancedHolidays[key]\<close>. Every key looked up holds a dash, which no property that
  the object inherits has in its name, so the lookup is one among the table's own keys.
\<close>

definition enhancedHolidays :: "string \<Rightarrow> holiday list option" where
  "enhancedHolidays key = map_of enhancedHolidaysTable key"

text \<open>
  What \<^verbatim>\<open>axios.get(apiUrl, { timeout: 3000 })\<close> does for a URL: it throws, or it returns
  a response whose \<open>data\<close> is an array of items or something else. An item is an object
  that may have a \<open>date\<close>, a \<open>name\<close>, a \<open>localName\<close> and an array \<open>types\<close> (the
  empty object has none of them), or \<^verbatim>\<open>null\<close>, on which reading a property throws. The
  properties that an item has are strings, and \<open>types\<close> an array of strings, as in the
  JSON of the sources; a missing property reads as \<^verbatim>\<open>undefined\<close>.
\<close>

datatype js_error = RequestFailed | TypeError

datatype rawHoliday =
  RawNull
| RawHoliday (rawDate: "string option") (rawName: "string option") (localName: "string option")
    (types: "string list option")

datatype responseData = NotAnArray | Items "rawHoliday list"

type_synonym network = "string \<Rightarrow> js_error + responseData"

text \<open>
  The callback of \<^verbatim>\<open>response.data.map\<close>:
  \<^verbatim>\<open>
  holiday => ({
      date: holiday.date,
      name: holiday.name,
      description: holiday.localName !== holiday.name ? holiday.localName : undefined,
      type: holiday.types?.includes('Public') ? 'public' : 'bank'
  })
  \<close>
\<close>

fun mapHoliday :: "rawHoliday \<Rightarrow> js_error + holidayObject" where
  "mapHoliday RawNull = Inl TypeError"
| "mapHoliday (RawHoliday d n ln ts) =
     Inr \<lparr>objDate = d, objName = n,
          objDescription = (if ln \<noteq> n then ln else None),
          objType = (if (case ts of None \<Rightarrow> False | Some l \<Rightarrow> ''Public'' \<in> set l)
                     then ''public'' else ''bank''),
          objObserved = None\<rparr>"

fun mapData :: "rawHoliday list \<Rightarrow> js_error + holidayObject list" where
  "mapData [] = Inr []"
| "mapData (x # xs) =
     (case mapHoliday x of
        Inl e \<Rightarrow> Inl e
      | Inr h \<Rightarrow> (case mapData xs of Inl e \<Rightarrow> Inl e | Inr hs \<Rightarrow> Inr (h # hs)))"

text \<open>
  How a block of statements ends: the function returns a value from inside it, or
  control runs on to the statement after it.
\<close>

datatype 'a completion = Return 'a | Normal

definition catch :: "(js_error + 'a) \<Rightarrow> (js_error \<Rightarrow> js_error + 'a) \<Rightarrow> js_error + 'a" where
  "catch body handler = (case body of Inl e \<Rightarrow> handler e | Inr v \<Rightarrow> Inr v)"

definition apis :: "string \<Rightarrow> int \<Rightarrow> string list" where
  "apis c y =
     [''https://date.nager.at/api/v3/PublicHolidays/'' @ showInt y @ ''/'' @ c,
      ''https://holidayapi.com/v1/holidays?country='' @ c @ ''&year='' @ showInt y,
      ''https://calendarific.com/api/v2/holidays?country='' @ c @ ''&year='' @ showInt y]"

text \<open>The body of the inner \<^verbatim>\<open>try\<close>, for one URL.\<close>

definition tryApi :: "network \<Rightarrow> string \<Rightarrow> js_error + holidayObject list completion" where
  "tryApi net apiUrl =
     (case net apiUrl of
        Inl e \<Rightarrow> Inl e
      | Inr NotAnArray \<Rightarrow> Inr Normal
      | Inr (Items items) \<Rightarrow>
          (case mapData items of Inl e \<Rightarrow> Inl e | Inr hs \<Rightarrow> Inr (Return hs)))"

text \<open>
  The \<^verbatim>\<open>for\<close> loop over the URLs; the inner \<^verbatim>\<open>catch\<close> logs and goes on to the next URL.
  The second component lists the URLs requested, in order.
\<close>

fun forApis ::
  "network \<Rightarrow> string list \<Rightarrow> (js_error + holidayObject list completion) \<times> string list" where
  "forApis net [] = (Inr Normal, [])"
| "forApis net (apiUrl # rest) =
     (case catch (tryApi net apiUrl) (\<lambda>error. Inr Normal) of
        Inl e \<Rightarrow> (Inl e, [apiUrl])
      | Inr (Return hs) \<Rightarrow> (Inr (Return hs), [apiUrl])
      | Inr Normal \<Rightarrow> (let (r, reqs) = forApis net rest in (r, apiUrl # reqs)))"

text \<open>
  \<^verbatim>\<open>fetchHolidays\<close>: the outer \<^verbatim>\<open>try\<close> around the loop, whose \<^verbatim>\<open>catch\<close> logs a warning,
  then the fallback \<^verbatim>\<open>enhancedHolidays[key] || []\<close>. The result is the value returned or
  the error thrown, with the URLs requested.
\<close>

definition fetchHolidays ::
  "network \<Rightarrow> string \<Rightarrow> int \<Rightarrow> string option \<Rightarrow>
     (js_error + holidayObject list) \<times> string list" where
  "fetchHolidays net c y r =
     (let (looped, reqs) = forApis net (apis c y)
      in (case catch looped (\<lambda>error. Inr Normal) of
            Inl e \<Rightarrow> Inl e
          | Inr (Return hs) \<Rightarrow> Inr hs
          | Inr Normal \<Rightarrow>
              (let key = c @ ''-'' @ showInt y
               in Inr (case enhancedHolidays key of
                         Some hs \<Rightarrow> map objectOf hs
                       | None \<Rightarrow> [])),
          reqs))"

text \<open>
  Two conditions on what a source does for a URL, both stated on the answer itself.
  The source fails: the request throws, the data is not an array, or the data is an
  array with a \<^verbatim>\<open>null\<close> item, on which the mapping throws. The source yields no usable
  data, as the specification words the condition of the fallback: it fails, or the
  array it answers with holds no holiday that has a date and a name.
\<close>

definition sourceFails :: "network \<Rightarrow> string \<Rightarrow> bool" where
  "sourceFails net apiUrl =
     (case net apiUrl of
        Inl e \<Rightarrow> True
      | Inr NotAnArray \<Rightarrow> True
      | Inr (Items items) \<Rightarrow> RawNull \<in> set items)"



section \<open>Request validation and the route\<close>

definition VALID_COUNTRIES :: "string list" where
  "VALID_COUNTRIES =
     [''AD'', ''AE'', ''AF'', ''AG'', ''AI'', ''AL'', ''AM'', ''AO'', ''AQ'', ''AR'', ''AS'', ''AT'', ''AU'', ''AW'', ''AX'', ''AZ'',
      ''BA'', ''BB'', ''BD'', ''BE'', ''BF'', ''BG'', ''BH'', ''BI'', ''BJ'', ''BL'', ''BM'', ''BN'', ''BO'', ''BQ'', ''BR'', ''BS'',
      ''BT'', ''BV'', ''BW'', ''BY'', ''BZ'', ''CA'', ''CC'', ''CD'', ''CF'', ''CG'', ''CH'', ''CI'', ''CK'', ''CL'', ''CM'', ''CN'',
      ''CO'', ''CR'', ''CU'', ''CV'', ''CW'', ''CX'', ''CY'', ''CZ'', ''DE'', ''DJ'', ''DK'', ''DM'', ''DO'', ''DZ'', ''EC'', ''EE'',
      ''EG'', ''EH'', ''ER'', ''ES'', ''ET'', ''FI'', ''FJ'', ''FK'', ''FM'', ''FO'', ''FR'', ''GA'', ''GB'', ''GD'', ''GE'', ''GF'',
      ''GG'', ''GH'', ''GI'', ''GL'', ''GM'', ''GN'', ''GP'', ''GQ'', ''GR'', ''GS'', ''GT'', ''GU'', ''GW'', ''GY'', ''HK'', ''HM'',
      ''HN'', ''HR'', ''HT'', ''HU'', ''ID'', ''IE'', ''IL'', ''IM'', ''IN'', ''IO'', ''IQ'', ''IR'', ''IS'', ''IT'', ''JE'', ''JM'',
      ''JO'', ''JP'', ''KE'', ''KG'', ''KH'', ''KI'', ''KM'', ''KN'', ''KP'', ''KR'', ''KW'', ''KY'', ''KZ'', ''LA'', ''LB'', ''LC'',
      ''LI'', ''LK'', ''LR'', ''LS'', ''LT'', ''LU'', ''LV'', ''LY'', ''MA'', ''MC'', ''MD'', ''ME'', ''MF'', ''MG'', ''MH'', ''MK'',
      ''ML'', ''MM'', ''MN'', ''MO'', ''MP'', ''MQ'', ''MR'', ''MS'', ''MT'', ''MU'', ''MV'', ''MW'', ''MX'', ''MY'', ''MZ'', ''NA'',
      ''NC'', ''NE'', ''NF'', ''NG'', ''NI'', ''NL'', ''NO'', ''NP'', ''NR'', ''NU'', ''NZ'', ''OM'', ''PA'', ''PE'', ''PF'', ''PG'',
      ''PH'', ''PK'', ''PL'', ''PM'', ''PN'', ''PR'', ''PS'', ''PT'', ''PW'', ''PY'', ''QA'', ''RE'', ''RO'', ''RS'', ''RU'', ''RW'',
      ''SA'', ''SB'', ''SC'', ''SD'', ''SE'', ''SG'', ''SH'', ''SI'', ''SJ'', ''SK'', ''SL'', ''SM'', ''SN'', ''SO'', ''SR'', ''SS'',
      ''ST'', ''SV'', ''SX'', ''SY'', ''SZ'', ''TC'', ''TD'', ''TF'', ''TG'', ''TH'', ''TJ'', ''TK'', ''TL'', ''TM'', ''TN'', ''TO'',
      ''TR'', ''TT'', ''TV'', ''TW'', ''TZ'', ''UA'', ''UG'', ''UM'', ''US'', ''UY'', ''UZ'', ''VA'', ''VC'', ''VE'', ''VG'', ''VI'',
      ''VN'', ''VU'', ''WF'', ''WS'', ''YE'', ''YT'', ''ZA'', ''ZM'', ''ZW'']"

text \<open>
  \<^verbatim>\<open>parseInt(year)\<close> without a radix, on a string: leading white space is skipped, a sign
  is read, a prefix \<^verbatim>\<open>0x\<close> or \<^verbatim>\<open>0X\<close> selects radix 16, and the longest run of digits
  of the radix is the number; none gives \<^verbatim>\<open>NaN\<close>, here \<open>None\<close>. The value is the exact
  integer; JavaScript rounds it beyond \<open>2\<^sup>5\<^sup>3\<close>, far outside any range tested here.
\<close>

definition isWhiteSpace :: "char \<Rightarrow> bool" where
  "isWhiteSpace c = (c \<in> set [CHR 0x09, CHR 0x0A, CHR 0x0B, CHR 0x0C, CHR 0x0D, CHR 0x20])"

definition digitValue :: "char \<Rightarrow> nat option" where
  "digitValue c =
     (if isDigit c then Some (of_char c - 48)
      else if isLower c then Some (of_char c - 87)
      else if isUpper c then Some (of_char c - 55)
      else None)"

definition isRadixDigit :: "nat \<Rightarrow> char \<Rightarrow> bool" where
  "isRadixDigit radix c = (case digitValue c of None \<Rightarrow> False | Some v \<Rightarrow> v < radix)"

definition digitsValue :: "nat \<Rightarrow> string \<Rightarrow> nat" where
  "digitsValue radix z = foldl (\<lambda>a c. a * radix + the (digitValue c)) 0 z"

definition parseInt :: "string \<Rightarrow> int option" where
  "parseInt s =
     (let s1 = dropWhile isWhiteSpace s;
          (sign, s2) = (case s1 of
                          c # rest \<Rightarrow> if c = CHR ''-'' then (- 1, rest)
                                      else if c = CHR ''+'' then (1, rest)
                                      else (1 :: int, s1)
                        | [] \<Rightarrow> (1, s1));
          (radix, s3) = (case s2 of
                           c # x # rest \<Rightarrow> if c = CHR ''0'' \<and> (x = CHR ''x'' \<or> x = CHR ''X'')
                                          then (16, rest) else (10 :: nat, s2)
                         | _ \<Rightarrow> (10, s2));
          z = takeWhile (isRadixDigit radix) s3
      in if z = [] then None else Some (sign * int (digitsValue radix z)))"

text \<open>
  The query of a request: each parameter is absent or a string. A response is a JSON
  error body with its status and \<open>code\<close>, or the calendar with its headers.
\<close>

record query =
  countryParam :: "string option"
  yearParam :: "string option"
  regionParam :: "string option"

datatype response =
  Json (status: nat) (code: string)
| Calendar (headers: "(string \<times> string) list") (body: string)

text \<open>
  \<^verbatim>\<open>validateHolidayRequest\<close>: \<open>Inl\<close> is the response it sends without calling
  \<^verbatim>\<open>next()\<close>, \<open>Inr\<close> the \<^verbatim>\<open>req.validatedQuery\<close> it passes on.
\<close>

definition validateHolidayRequest :: "query \<Rightarrow> response + options" where
  "validateHolidayRequest q =
     (if \<not> truthy (countryParam q) then Inl (Json 400 ''MISSING_COUNTRY'')
      else if toUpperCase (the (countryParam q)) \<notin> set VALID_COUNTRIES
        then Inl (Json 400 ''INVALID_COUNTRY'')
      else if \<not> truthy (yearParam q) then Inl (Json 400 ''MISSING_YEAR'')
      else (case parseInt (the (yearParam q)) of
              None \<Rightarrow> Inl (Json 400 ''INVALID_YEAR'')
            | Some yearInt \<Rightarrow>
                if yearInt < 2000 \<or> yearInt > 2030 then Inl (Json 400 ''INVALID_YEAR'')
                else Inr \<lparr>country = toUpperCase (the (countryParam q)),
                          year = yearInt,
                          region = map_option toUpperCase (regionParam q)\<rparr>))"

text \<open>
  \<^verbatim>\<open>generateICS\<close> called on the objects of the resolver. It reads the clock first; the
  callback calls \<^verbatim>\<open>holiday.date.replace\<close> and \<^verbatim>\<open>holiday.name.replace\<close>, so an object
  whose \<open>date\<close> or \<open>name\<close> is \<^verbatim>\<open>undefined\<close> makes it throw a \<^verbatim>\<open>TypeError\<close>.
\<close>

definition asHoliday :: "holidayObject \<Rightarrow> js_error + holiday" where
  "asHoliday ob =
     (case objDate ob of
        None \<Rightarrow> Inl TypeError
      | Some d \<Rightarrow>
          (case objName ob of
             None \<Rightarrow> Inl TypeError
           | Some n \<Rightarrow>
               Inr \<lparr>date = d, name = n, description = objDescription ob, type = objType ob,
                    observed = objObserved ob\<rparr>))"

fun asHolidays :: "holidayObject list \<Rightarrow> js_error + holiday list" where
  "asHolidays [] = Inr []"
| "asHolidays (ob # obs) =
     (case asHoliday ob of
        Inl e \<Rightarrow> Inl e
      | Inr h \<Rightarrow> (case asHolidays obs of Inl e \<Rightarrow> Inl e | Inr hs \<Rightarrow> Inr (h # hs)))"

definition generateICSOfObjects ::
  "clock \<Rightarrow> holidayObject list \<Rightarrow> options \<Rightarrow> (js_error + string) \<times> clock" where
  "generateICSOfObjects clk obs opts =
     (case asHolidays obs of
        Inl e \<Rightarrow> (Inl e, snd (newDate clk))
      | Inr hs \<Rightarrow> (let (icsText, clk') = generateICS clk hs opts in (Inr icsText, clk')))"

text \<open>
  \<^verbatim>\<open>res.set\<close>: a header value with a character that HTTP does not allow in it (a control
  character other than the tab) makes it throw a \<^verbatim>\<open>TypeError\<close>; otherwise the headers
  are added.
\<close>

definition validHeaderChar :: "char \<Rightarrow> bool" where
  "validHeaderChar c =
     (c = CHR 0x09 \<or> (32 \<le> (of_char c :: nat) \<and> (of_char c :: nat) \<le> 126)
        \<or> 128 \<le> (of_char c :: nat))"

definition resSet ::
  "(string \<times> string) list \<Rightarrow> (string \<times> string) list \<Rightarrow> js_error + (string \<times> string) list" where
  "resSet hdrs new =
     (if list_all (\<lambda>kv. list_all validHeaderChar (snd kv)) new then Inr (hdrs @ new)
      else Inl TypeError)"

text \<open>
  The route \<^verbatim>\<open>GET /holidays\<close> behind the rate limiter: validation, then inside the
  handler's \<^verbatim>\<open>try\<close> the resolver, the encoder and the headers; whatever is thrown there
  is answered by the \<^verbatim>\<open>catch\<close> with status 500. The result is the response, the URLs
  the resolver requested, and the clock afterwards.
\<close>

definition holidaysRoute :: "network \<Rightarrow> clock \<Rightarrow> query \<Rightarrow> response \<times> string list \<times> clock" where
  "holidaysRoute net clk q =
     (case validateHolidayRequest q of
        Inl resp \<Rightarrow> (resp, [], clk)
      | Inr v \<Rightarrow>
          (case fetchHolidays net (country v) (year v) (region v) of
             (Inl e, reqs) \<Rightarrow> (Json 500 ''INTERNAL_ERROR'', reqs, clk)
           | (Inr holidays, reqs) \<Rightarrow>
               if holidays = [] then (Json 404 ''NO_HOLIDAYS_FOUND'', reqs, clk)
               else
                 (case generateICSOfObjects clk holidays v of
                    (Inl e, clk') \<Rightarrow> (Json 500 ''INTERNAL_ERROR'', reqs, clk')
                  | (Inr icsText, clk') \<Rightarrow>
                      (let filename =
                             (if truthy (region v)
                              then ''holidays-'' @ country v @ ''-'' @ the (region v) @ ''-''
                                     @ showInt (year v) @ ''.ics''
                              else ''holidays-'' @ country v @ ''-'' @ showInt (year v) @ ''.ics'');
                           set1 = resSet []
                             [(''Content-Type'', ''text/calendar; charset=utf-8''),
                              (''Content-Disposition'',
                                 ''attachment; filename='' @ [CHR 0x22] @ filename @ [CHR 0x22]),
                              (''Cache-Control'', ''public, max-age=86400''),
                              (''X-Holidays-Count'', showNat (length holidays)),
                              (''X-Country'', country v),
                              (''X-Year'', showInt (year v)),
                              (''X-API-Version'', ''1.0.0''),
                              (''X-RapidAPI-Service'', ''Holiday Calendar API'')];
                           set2 = (case set1 of
                                     Inl e \<Rightarrow> Inl e
                                   | Inr hdrs \<Rightarrow>
                                       if truthy (region v)
                                       then resSet hdrs [(''X-Region'', the (region v))]
                                       else Inr hdrs)
                       in (case set2 of
                             Inl e \<Rightarrow> (Json 500 ''INTERNAL_ERROR'', reqs, clk')
                           | Inr hdrs \<Rightarrow> (Calendar hdrs icsText, reqs, clk'))))))"



section \<open>Properties of the string primitives\<close>

lemma replaceAll_Nil: "replaceAll c r [] = []"
  by (simp add: replaceAll_def)

lemma replaceAll_Cons:
  "replaceAll c r (x # s) = (if x = c then r else [x]) @ replaceAll c r s"
  by (simp add: replaceAll_def)

lemma replaceAll_append: "replaceAll c r (s @ t) = replaceAll c r s @ replaceAll c r t"
  by (simp add: replaceAll_def)

lemma replaceAll_removes: "c \<notin> set (replaceAll c [] s)"
  by (induction s) (auto simp: replaceAll_def)

lemma isDigit_not_dash: "isDigit c \<Longrightarrow> c \<noteq> CHR ''-''"
  by (auto simp: isDigit_def)

lemma digitChar_isDigit: "d < 10 \<Longrightarrow> isDigit (digitChar d)"
  unfolding isDigit_def digitChar_def by (rule nth_mem) simp

lemma digitChar_inj: "d < 10 \<Longrightarrow> e < 10 \<Longrightarrow> digitChar d = digitChar e \<Longrightarrow> d = e"
  unfolding digitChar_def
  by (subst (asm) nth_eq_iff_index_eq) simp_all

lemma showNat_digits: "list_all isDigit (showNat n)"
proof (induction n rule: showNat.induct)
  case (1 n)
  show ?case
  proof (cases "n < 10")
    case True
    then show ?thesis by (subst showNat.simps) (simp add: digitChar_isDigit)
  next
    case False
    with 1 show ?thesis by (subst showNat.simps) (simp add: digitChar_isDigit)
  qed
qed

lemma showNat_not_Nil: "showNat n \<noteq> []"
  by (subst showNat.simps) simp

lemma showNat_length: "length (showNat n) = 1 \<longleftrightarrow> n < 10"
proof (cases "n < 10")
  case True
  then show ?thesis by (subst showNat.simps) simp
next
  case False
  with showNat_not_Nil[of "n div 10"] show ?thesis by (subst showNat.simps) simp
qed

text \<open>Two numbers with the same decimal digits are the same number.\<close>

lemma showNat_inj: "showNat m = showNat n \<Longrightarrow> m = n"
proof (induction m arbitrary: n rule: showNat.induct)
  case (1 m)
  show ?case
  proof (cases "m < 10")
    case True
    then have "length (showNat n) = 1" using 1(2) showNat_length[of m] by simp
    then have n: "n < 10" using showNat_length[of n] by simp
    from 1(2) True n have "digitChar m = digitChar n"
      by (simp add: showNat.simps[of m] showNat.simps[of n])
    with True n show ?thesis by (rule_tac digitChar_inj)
  next
    case False
    then have "length (showNat n) \<noteq> 1" using 1(2) showNat_length[of m] by simp
    then have n: "\<not> n < 10" using showNat_length[of n] by simp
    from 1(2) False n have "showNat (m div 10) = showNat (n div 10)"
      and d: "digitChar (m mod 10) = digitChar (n mod 10)"
      by (simp_all add: showNat.simps[of m] showNat.simps[of n])
    then have "m div 10 = n div 10" using 1(1) False by simp
    moreover have "m mod 10 = n mod 10" using d by (intro digitChar_inj) simp_all
    ultimately show ?thesis by (metis div_mult_mod_eq)
  qed
qed

lemma showNat_no_dash: "CHR ''-'' \<notin> set (showNat n)"
  using showNat_digits[of n] by (auto simp: list_all_iff dest: isDigit_not_dash)

text \<open>A list is cut in one way only at the first, and at the last, occurrence of a mark.\<close>

lemma split_first:
  "d \<notin> set xs \<Longrightarrow> d \<notin> set ys \<Longrightarrow> xs @ d # r = ys @ d # r' \<Longrightarrow> xs = ys \<and> r = r'"
proof (induction xs arbitrary: ys)
  case Nil
  then show ?case by (cases ys) auto
next
  case (Cons x xs)
  then show ?case by (cases ys) auto
qed

lemma split_last:
  assumes "d \<notin> set r" "d \<notin> set r'" "xs @ d # r = ys @ d # r'"
  shows "xs = ys \<and> r = r'"
proof -
  from assms(3) have "rev r @ d # rev xs = rev r' @ d # rev ys"
    by (metis rev.simps(2) rev_append append_assoc append_Cons append_Nil)
  with assms(1,2) have "rev r = rev r' \<and> rev xs = rev ys"
    by (intro split_first) simp_all
  then show ?thesis by simp
qed

section \<open>Properties of escapeText\<close>

lemma escapeText_Nil: "escapeText [] = []"
  by (simp add: escapeText_def replaceAll_Nil)

lemma escapeText_append: "escapeText (s @ t) = escapeText s @ escapeText t"
  by (simp add: escapeText_def replaceAll_append)

lemma escapeText_single: "escapeText [c] = escapeRule c"
  by (simp add: escapeText_def escapeRule_def replaceAll_Cons replaceAll_Nil)

lemma escapeText_concat: "escapeText s = concat (map escapeRule s)"
proof (induction s)
  case Nil
  show ?case by (simp add: escapeText_Nil)
next
  case (Cons c s)
  have "escapeText (c # s) = escapeText ([c] @ s)" by simp
  also have "\<dots> = escapeRule c @ escapeText s"
    by (simp only: escapeText_append escapeText_single)
  finally show ?case by (simp add: Cons.IH)
qed

text \<open>
  C1. The five passes of \<open>escapeText\<close>, backslash first, give for every input string the
  result of replacing each backslash by two backslashes, each semicolon by backslash
  semicolon, each comma by backslash comma, each newline by backslash \<open>n\<close> and dropping
  each carriage return, every input character treated exactly once: a backslash that a
  later pass introduces is not escaped again.
\<close>

theorem escapeText_is_escapeRule:
  "escapeText s =
     replaceAll CR []
       (replaceAll LF [backslash, CHR ''n'']
         (replaceAll (CHR '','') [backslash, CHR '','']
           (replaceAll (CHR '';'') [backslash, CHR '';'']
             (replaceAll backslash [backslash, backslash] s)))) \<and>
   escapeText s = concat (map escapeRule s) \<and>
   escapeRule backslash = [backslash, backslash] \<and>
   escapeRule (CHR '';'') = [backslash, CHR '';''] \<and>
   escapeRule (CHR '','') = [backslash, CHR '',''] \<and>
   escapeRule LF = [backslash, CHR ''n''] \<and>
   escapeRule CR = []"
  by (simp add: escapeText_concat[symmetric]) (simp add: escapeText_def escapeRule_def)

text \<open>
  A name with a semicolon, a comma, a backslash, a newline and a carriage return: the
  backslash is doubled, and the backslashes put before the semicolon, the comma and the
  \<open>n\<close> stay single.
\<close>

theorem escapeText_example:
  "escapeText [CHR ''a'', CHR '';'', CHR ''b'', CHR '','', backslash, LF, CR, CHR ''c''] =
     [CHR ''a'', backslash, CHR '';'', CHR ''b'', backslash, CHR '','',
      backslash, backslash, backslash, CHR ''n'', CHR ''c'']"
  using conjunct1 [OF conjunct2 [OF escapeText_is_escapeRule
    [of "[CHR ''a'', CHR '';'', CHR ''b'', CHR '','', backslash, LF, CR, CHR ''c'']"]]]
  by (simp add: escapeRule_def)

section \<open>Properties of generateUID\<close>

lemma toLowerChar_alnum: "isAlnum c \<Longrightarrow> toLowerChar c \<noteq> CHR ''-''"
  by (auto simp: isAlnum_def isLower_def isUpper_def isDigit_def toLowerChar_def)

lemma nameHash_no_dash: "CHR ''-'' \<notin> set (toLowerCase (filter isAlnum s))"
  by (auto simp: toLowerCase_def dest: toLowerChar_alnum)

lemma isoDate_shape:
  "isoDate s \<Longrightarrow>
     \<exists>y1 y2 y3 y4 m1 m2 d1 d2. s = [y1, y2, y3, y4, CHR ''-'', m1, m2, CHR ''-'', d1, d2]
        \<and> list_all isDigit [y1, y2, y3, y4, m1, m2, d1, d2]"
  by (induction s rule: isoDate.induct) auto

text \<open>Stripping the dashes of a well-formed date leaves its eight digits.\<close>

lemma formatDate_isoDate:
  "isoDate s \<Longrightarrow>
     \<exists>y1 y2 y3 y4 m1 m2 d1 d2. s = [y1, y2, y3, y4, CHR ''-'', m1, m2, CHR ''-'', d1, d2]
        \<and> list_all isDigit [y1, y2, y3, y4, m1, m2, d1, d2]
        \<and> formatDate s = [y1, y2, y3, y4, m1, m2, d1, d2]"
  by (drule isoDate_shape) (auto simp: formatDate_def replaceAll_def dest: isDigit_not_dash)

lemma formatDate_inj:
  assumes "isoDate s" "isoDate t" "formatDate s = formatDate t"
  shows "s = t"
  using formatDate_isoDate[OF assms(1)] formatDate_isoDate[OF assms(2)] assms(3) by auto


lemma table_dates_isoDate:
  "list_all (\<lambda>(key, hs). list_all (\<lambda>h. isoDate (date h) \<and> observed h = None) hs)
     enhancedHolidaysTable"
  by code_simp

lemma uid_line: "eventBlock ts c y h ! 1 = ''UID:'' @ generateUID h c y"
  by (simp add: eventBlock_def pushEvent_def Let_def)

text \<open>
  C2, as the claim states it, fails: two records that differ in \<open>name\<close> only, by case
  and by characters that are not alphanumeric, get the same UID.
\<close>

theorem generateUID_name_collision:
  "generateUID \<lparr>date = ''2025-12-26'', name = ''Boxing Day'', description = None,
                 type = ''public'', observed = None\<rparr> ''GB'' 2025
     = generateUID \<lparr>date = ''2025-12-26'', name = ''boxing-day!'', description = None,
                     type = ''public'', observed = None\<rparr> ''GB'' 2025
   \<and> ''Boxing Day'' \<noteq> ''boxing-day!''"
  by (simp add: generateUID_def toLowerCase_def toLowerChar_def isAlnum_def isDigit_def
      isUpper_def isLower_def)

lemma generateUID_parts:
  assumes "0 \<le> ya" "0 \<le> yb"
  shows "generateUID ha ca ya = generateUID hb cb yb \<longleftrightarrow>
           formatDate (date ha) = formatDate (date hb) \<and>
           toLowerCase (filter isAlnum (name ha)) = toLowerCase (filter isAlnum (name hb)) \<and>
           ca = cb \<and> ya = yb"
proof
  let ?da = "formatDate (date ha)" and ?db = "formatDate (date hb)"
  let ?na = "toLowerCase (filter isAlnum (name ha))"
  let ?nb = "toLowerCase (filter isAlnum (name hb))"
  assume eq: "generateUID ha ca ya = generateUID hb cb yb"
  from eq assms
  have e0: "?da @ CHR ''-'' # (?na @ CHR ''-'' # (ca @ CHR ''-'' # showNat (nat ya)))
      = ?db @ CHR ''-'' # (?nb @ CHR ''-'' # (cb @ CHR ''-'' # showNat (nat yb)))"
    by (simp add: generateUID_def formatDate_def showInt_def Let_def)
  have nd: "CHR ''-'' \<notin> set ?da" "CHR ''-'' \<notin> set ?db"
    by (simp_all add: formatDate_def replaceAll_removes)
  from split_first[OF nd e0]
  have d: "?da = ?db"
    and e1: "?na @ CHR ''-'' # (ca @ CHR ''-'' # showNat (nat ya))
      = ?nb @ CHR ''-'' # (cb @ CHR ''-'' # showNat (nat yb))"
    by simp_all
  from split_first[OF nameHash_no_dash nameHash_no_dash e1]
  have n: "?na = ?nb"
    and e2: "ca @ CHR ''-'' # showNat (nat ya) = cb @ CHR ''-'' # showNat (nat yb)"
    by simp_all
  from split_last[OF showNat_no_dash showNat_no_dash e2]
  have c: "ca = cb" and "showNat (nat ya) = showNat (nat yb)" by simp_all
  then have "nat ya = nat yb" by (simp add: showNat_inj)
  with assms have y: "ya = yb" by simp
  from d n c y show "?da = ?db \<and> ?na = ?nb \<and> ca = cb \<and> ya = yb" by simp
next
  assume "formatDate (date ha) = formatDate (date hb) \<and>
           toLowerCase (filter isAlnum (name ha)) = toLowerCase (filter isAlnum (name hb)) \<and>
           ca = cb \<and> ya = yb"
  then show "generateUID ha ca ya = generateUID hb cb yb"
    by (simp add: generateUID_def formatDate_def)
qed

text \<open>
  C2, amended. The UID is the date with its dashes stripped, the name reduced to its
  alphanumeric characters and lower-cased, the country and the year, joined by dashes
  and followed by \<^verbatim>\<open>@holiday-calendar-api.com\<close>; the UID line of an event block is this
  value whatever the generation timestamp is. For years that are not negative, two UIDs
  are equal exactly when the stripped dates, the reduced names, the countries and the
  years are equal; for well-formed dates the stripped dates are equal exactly when the
  dates are. So two inputs with well-formed dates differ in their UIDs as soon as they
  differ in the date, the country, the year or the reduced name, and names with the
  same reduction do not tell two UIDs apart.
\<close>

theorem generateUID_equal_iff:
  "generateUID ha ca ya =
     formatDate (date ha) @ ''-'' @ toLowerCase (filter isAlnum (name ha)) @ ''-'' @ ca
       @ ''-'' @ showInt ya @ ''@holiday-calendar-api.com'' \<and>
   eventBlock ts ca ya ha ! 1 = ''UID:'' @ generateUID ha ca ya \<and>
   (0 \<le> ya \<and> 0 \<le> yb \<longrightarrow>
      (generateUID ha ca ya = generateUID hb cb yb \<longleftrightarrow>
         formatDate (date ha) = formatDate (date hb) \<and>
         toLowerCase (filter isAlnum (name ha)) = toLowerCase (filter isAlnum (name hb)) \<and>
         ca = cb \<and> ya = yb)) \<and>
   (isoDate (date ha) \<and> isoDate (date hb) \<and> 0 \<le> ya \<and> 0 \<le> yb \<longrightarrow>
      (generateUID ha ca ya = generateUID hb cb yb \<longleftrightarrow>
         date ha = date hb \<and>
         toLowerCase (filter isAlnum (name ha)) = toLowerCase (filter isAlnum (name hb)) \<and>
         ca = cb \<and> ya = yb))"
proof (intro conjI impI)
  show "generateUID ha ca ya =
           formatDate (date ha) @ ''-'' @ toLowerCase (filter isAlnum (name ha)) @ ''-'' @ ca
             @ ''-'' @ showInt ya @ ''@holiday-calendar-api.com''"
    by (simp add: generateUID_def formatDate_def)
  show "eventBlock ts ca ya ha ! 1 = ''UID:'' @ generateUID ha ca ya"
    by (rule uid_line)
  show "generateUID ha ca ya = generateUID hb cb yb \<longleftrightarrow>
         formatDate (date ha) = formatDate (date hb) \<and>
         toLowerCase (filter isAlnum (name ha)) = toLowerCase (filter isAlnum (name hb)) \<and>
         ca = cb \<and> ya = yb"
    if "0 \<le> ya \<and> 0 \<le> yb"
    using that by (simp add: generateUID_parts)
  show "generateUID ha ca ya = generateUID hb cb yb \<longleftrightarrow>
         date ha = date hb \<and>
         toLowerCase (filter isAlnum (name ha)) = toLowerCase (filter isAlnum (name hb)) \<and>
         ca = cb \<and> ya = yb"
    if h: "isoDate (date ha) \<and> isoDate (date hb) \<and> 0 \<le> ya \<and> 0 \<le> yb"
  proof -
    from h have "formatDate (date ha) = formatDate (date hb) \<longleftrightarrow> date ha = date hb"
      by (auto dest: formatDate_inj)
    with h show ?thesis by (simp add: generateUID_parts)
  qed
qed

text \<open>Boxing Day and Christmas Day of the static table: the dates differ, so do the UIDs.\<close>

theorem generateUID_equal_iff_witness:
  "isoDate ''2025-12-26'' \<and> isoDate ''2025-12-25'' \<and> (0 :: int) \<le> 2025 \<and>
   generateUID \<lparr>date = ''2025-12-26'', name = ''Boxing Day'', description = None,
                 type = ''public'', observed = None\<rparr> ''GB'' 2025
     \<noteq> generateUID \<lparr>date = ''2025-12-25'', name = ''Christmas Day'', description = None,
                     type = ''public'', observed = None\<rparr> ''GB'' 2025"
  using conjunct2 [OF conjunct2 [OF conjunct2 [OF generateUID_equal_iff
    [where ha = "\<lparr>date = ''2025-12-26'', name = ''Boxing Day'', description = None,
                   type = ''public'', observed = None\<rparr>"
       and hb = "\<lparr>date = ''2025-12-25'', name = ''Christmas Day'', description = None,
                   type = ''public'', observed = None\<rparr>"
       and ya = 2025 and yb = 2025 and ca = "''GB''" and cb = "''GB''" and ts = "[]"]]]]
  by (simp add: isDigit_def)

section \<open>Properties of the encoder\<close>

lemma pushEvent_append: "pushEvent ts c y acc h = acc @ eventBlock ts c y h"
  by (simp add: pushEvent_def eventBlock_def Let_def)

text \<open>The loop appends, record after record, the block of each record.\<close>

lemma foldl_pushEvent:
  "foldl (pushEvent ts c y) acc hs = acc @ concat (map (eventBlock ts c y) hs)"
proof (induction hs arbitrary: acc)
  case Nil
  show ?case by simp
next
  case (Cons h hs)
  show ?case by (simp add: Cons.IH pushEvent_append[of ts c y acc h])
qed

lemma icsContent_blocks:
  "icsContent now hs opts =
     calendarHeader opts
       @ concat (map (eventBlock (formatDateTimeUTC now) (country opts) (year opts)) hs)
       @ [''END:VCALENDAR'']"
  by (simp add: icsContent_def Let_def foldl_pushEvent)

lemma generateICS_reads_once:
  "generateICS clk hs opts = (joinWith [CR, LF] (icsContent (clk 0) hs opts), \<lambda>k. clk (Suc k))"
  by (simp add: generateICS_def newDate_def)

lemma eventBlock_shape:
  "eventBlock ts c y h = ''BEGIN:VEVENT'' # eventBody ts c y h @ [''END:VEVENT'']"
  by (simp add: eventBody_def eventBlock_def pushEvent_def Let_def)

lemma eventBody_no_end: "''END:VEVENT'' \<notin> set (eventBody ts c y h)"
  by (simp add: eventBody_def eventBlock_def pushEvent_def Let_def)


lemma header_no_begin: "''BEGIN:VEVENT'' \<notin> set (calendarHeader opts)"
  by (simp add: calendarHeader_def Let_def)

lemma header_length: "length (calendarHeader opts) = 10"
  by (simp add: calendarHeader_def Let_def)

lemma scan_skip:
  "''BEGIN:VEVENT'' \<notin> set pre \<Longrightarrow> scanBlocks None (pre @ rest) = scanBlocks None rest"
  by (induction pre) auto

lemma scan_inside:
  "''END:VEVENT'' \<notin> set mid \<Longrightarrow>
     scanBlocks (Some b) (mid @ ''END:VEVENT'' # rest) =
       (b @ mid @ [''END:VEVENT'']) # scanBlocks None rest"
  by (induction mid arbitrary: b) auto

lemma scan_block:
  "scanBlocks None (eventBlock ts c y h @ rest) = eventBlock ts c y h # scanBlocks None rest"
  using scan_inside[OF eventBody_no_end, of "[''BEGIN:VEVENT'']" ts c y h rest]
  by (simp add: eventBlock_shape)

lemma scan_blocks:
  "''BEGIN:VEVENT'' \<notin> set post \<Longrightarrow>
   scanBlocks None (concat (map (eventBlock ts c y) hs) @ post) = map (eventBlock ts c y) hs"
proof (induction hs)
  case Nil
  then show ?case using scan_skip[of post "[]"] by simp
next
  case (Cons h hs)
  then show ?case by (simp add: scan_block)
qed

lemma eventBlocks_icsContent:
  "eventBlocks (icsContent now hs opts) =
     map (eventBlock (formatDateTimeUTC now) (country opts) (year opts)) hs"
  unfolding eventBlocks_def icsContent_blocks
  by (simp add: scan_skip[OF header_no_begin] scan_blocks)

text \<open>
  The rendered text cut at CRLF gives back the lines, when no line holds a carriage
  return of its own.
\<close>

lemma split_line: "CR \<notin> set l \<Longrightarrow> splitCRLF cur l = [cur @ l]"
  by (induction cur l rule: splitCRLF.induct) auto

lemma split_line_rest:
  "CR \<notin> set l \<Longrightarrow> splitCRLF cur (l @ CR # LF # rest) = (cur @ l) # splitCRLF [] rest"
proof (induction l arbitrary: cur)
  case Nil
  show ?case by simp
next
  case (Cons c l)
  then show ?case by (cases "l @ CR # LF # rest") auto
qed

lemma split_join:
  "ls \<noteq> [] \<Longrightarrow> list_all noCR ls \<Longrightarrow> splitCRLF [] (joinWith [CR, LF] ls) = ls"
proof (induction "[CR, LF]" ls rule: joinWith.induct)
  case 1
  then show ?case by simp
next
  case (2 x)
  then show ?case by (simp add: noCR_def split_line)
next
  case (3 x y ys)
  then show ?case by (simp add: noCR_def split_line_rest)
qed

lemma noCR_append: "noCR (s @ t) \<longleftrightarrow> noCR s \<and> noCR t"
  by (auto simp: noCR_def)

lemma noCR_Cons: "noCR (c # s) \<longleftrightarrow> c \<noteq> CR \<and> noCR s"
  by (auto simp: noCR_def)

lemma noCR_Nil: "noCR []"
  by (simp add: noCR_def)

lemma noCR_escapeText: "noCR (escapeText s)"
  by (simp add: noCR_def escapeText_def replaceAll_removes)

lemma set_replaceAll_Nil: "set (replaceAll c [] s) \<subseteq> set s"
  by (induction s) (auto simp: replaceAll_def)

lemma noCR_formatDate: "noCR s \<Longrightarrow> noCR (formatDate s)"
  using set_replaceAll_Nil[of "CHR ''-''" s] by (auto simp: noCR_def formatDate_def)

lemma set_removeMillis: "set (removeMillis s) \<subseteq> set s"
proof (induction s)
  case Nil
  show ?case by simp
next
  case (Cons c cs)
  have "set (drop 3 cs) \<subseteq> set (c # cs)"
    using set_drop_subset[of 3 cs] by auto
  with Cons show ?case by auto
qed

lemma noCR_formatDateTimeUTC: "noCR d \<Longrightarrow> noCR (formatDateTimeUTC d)"
  using set_removeMillis[of "filter (\<lambda>c. c \<notin> set ''-:'') d"]
  by (auto simp: noCR_def formatDateTimeUTC_def)

lemma isDigit_not_CR: "isDigit c \<Longrightarrow> c \<noteq> CR"
  by (auto simp: isDigit_def)

lemma noCR_showNat: "noCR (showNat n)"
  using showNat_digits[of n] by (auto simp: noCR_def list_all_iff dest: isDigit_not_CR)

lemma noCR_showInt: "noCR (showInt i)"
  by (simp add: showInt_def noCR_Cons noCR_showNat)

lemma toUpperChar_cases: "toUpperChar c = c \<or> isUpper (toUpperChar c)"
proof (cases "map_of (zip ''abcdefghijklmnopqrstuvwxyz'' ''ABCDEFGHIJKLMNOPQRSTUVWXYZ'') c")
  case None
  then show ?thesis by (simp add: toUpperChar_def)
next
  case (Some u)
  then have "u \<in> set ''ABCDEFGHIJKLMNOPQRSTUVWXYZ''"
    by (blast dest: map_of_SomeD set_zip_rightD)
  with Some show ?thesis by (simp add: toUpperChar_def isUpper_def)
qed

lemma toUpperChar_CR: "toUpperChar c = CR \<longleftrightarrow> c = CR"
proof
  assume "toUpperChar c = CR"
  with toUpperChar_cases[of c] show "c = CR" by (auto simp: isUpper_def)
next
  assume "c = CR"
  then show "toUpperChar c = CR" by (simp add: toUpperChar_def)
qed

lemma noCR_toUpperCase: "noCR (toUpperCase s) = noCR s"
  by (induction s) (simp_all add: toUpperCase_def noCR_Cons noCR_Nil toUpperChar_CR)

lemma toLowerChar_alnum_CR: "isAlnum c \<Longrightarrow> toLowerChar c \<noteq> CR"
  by (auto simp: isAlnum_def isLower_def isUpper_def isDigit_def toLowerChar_def)

lemma noCR_nameHash: "noCR (toLowerCase (filter isAlnum s))"
  by (auto simp: noCR_def toLowerCase_def dest: toLowerChar_alnum_CR)

lemma noCR_generateUID:
  assumes "noCR (date h)" "noCR c"
  shows "noCR (generateUID h c y)"
proof -
  have "noCR (replaceAll (CHR ''-'') [] (date h))"
    using noCR_formatDate[OF assms(1)] by (simp add: formatDate_def)
  with assms(2) show ?thesis
    by (simp add: generateUID_def noCR_append noCR_Cons noCR_Nil noCR_nameHash noCR_showInt)
qed

lemma noCR_header: "plainOptions opts \<Longrightarrow> list_all noCR (calendarHeader opts)"
  by (simp add: plainOptions_def calendarHeader_def calendarName_def truthy_def Let_def
      noCR_append noCR_Cons noCR_Nil noCR_showInt split: option.splits)

lemma noCR_block:
  assumes "noCR ts" "noCR c" "plainHoliday h"
  shows "list_all noCR (eventBlock ts c y h)"
proof -
  from assms(3) have d: "noCR (date h)" and t: "noCR (type h)"
    and o: "truthy (observed h) \<Longrightarrow> noCR (the (observed h))"
    by (auto simp: plainHoliday_def truthy_def split: option.splits)
  show ?thesis
    using assms(1) o
    by (simp add: eventBlock_def pushEvent_def Let_def noCR_append noCR_Cons noCR_Nil
        noCR_generateUID[OF d assms(2)] noCR_formatDate[OF d] noCR_formatDate
        noCR_escapeText noCR_toUpperCase t)
qed

lemma noCR_blocks:
  "noCR ts \<Longrightarrow> noCR c \<Longrightarrow> list_all plainHoliday hs \<Longrightarrow>
     list_all noCR (concat (map (eventBlock ts c y) hs))"
  by (induction hs) (simp_all add: noCR_block)

lemma noCR_icsContent:
  assumes "noCR now" "plainOptions opts" "list_all plainHoliday hs"
  shows "list_all noCR (icsContent now hs opts)"
proof -
  from assms(2) have "noCR (country opts)" by (simp add: plainOptions_def)
  with assms show ?thesis
    by (simp add: icsContent_blocks noCR_header noCR_blocks noCR_formatDateTimeUTC
        noCR_Cons noCR_Nil)
qed

lemma icsContent_not_Nil: "icsContent now hs opts \<noteq> []"
  by (simp add: icsContent_blocks)

lemma split_rendered:
  assumes "noCR (clk 0)" "plainOptions opts" "list_all plainHoliday hs"
  shows "splitCRLF [] (fst (generateICS clk hs opts)) = icsContent (clk 0) hs opts"
  by (simp add: generateICS_reads_once split_join icsContent_not_Nil noCR_icsContent[OF assms])




lemma stamps_of_block: "filter isStamp (eventBlock ts c y h) = [''DTSTAMP:'' @ ts]"
  by (simp add: eventBlock_def pushEvent_def Let_def isStamp_def)

lemma stamp_line: "eventBlock ts c y h ! 2 = ''DTSTAMP:'' @ ts"
  by (simp add: eventBlock_def pushEvent_def Let_def)

lemma stamps_of_header: "filter isStamp (calendarHeader opts) = []"
  by (simp add: calendarHeader_def Let_def isStamp_def)

lemma stamps_of_blocks:
  "filter isStamp (concat (map (eventBlock ts c y) hs)) =
     replicate (length hs) (''DTSTAMP:'' @ ts)"
  by (induction hs) (simp_all add: stamps_of_block)

lemma map_replicate_const: "map (\<lambda>h. v) hs = replicate (length hs) v"
  by (induction hs) simp_all

text \<open>
  C9. One render reads the clock once, before the loop. The \<^verbatim>\<open>DTSTAMP\<close> lines of the
  document are one per record and all the same line, the formatted reading; it is the
  third line of every event block.
\<close>

theorem one_timestamp_per_render:
  "generateICS clk hs opts =
     (joinWith [CR, LF] (icsContent (clk 0) hs opts), \<lambda>k. clk (Suc k)) \<and>
   filter isStamp (icsContent now hs opts) =
     replicate (length hs) (''DTSTAMP:'' @ formatDateTimeUTC now) \<and>
   map (\<lambda>b. b ! 2) (eventBlocks (icsContent now hs opts)) =
     replicate (length hs) (''DTSTAMP:'' @ formatDateTimeUTC now)"
  by (simp add: generateICS_reads_once icsContent_blocks stamps_of_header stamps_of_blocks
      isStamp_def eventBlocks_icsContent[unfolded icsContent_blocks] stamp_line
      map_replicate_const comp_def)

theorem one_timestamp_per_render_witness:
  "filter isStamp
     (icsContent ''2025-01-01T12:34:56.789Z''
        [\<lparr>date = ''2025-12-25'', name = ''Christmas Day'', description = None,
           type = ''public'', observed = None\<rparr>,
         \<lparr>date = ''2025-01-01'', name = ''New Year's Day'', description = None,
           type = ''public'', observed = None\<rparr>]
        \<lparr>country = ''US'', year = 2025, region = None\<rparr>)
   = [''DTSTAMP:20250101T123456Z'', ''DTSTAMP:20250101T123456Z'']"
  using conjunct1 [OF conjunct2 [OF one_timestamp_per_render
    [where now = "''2025-01-01T12:34:56.789Z''"
       and opts = "\<lparr>country = ''US'', year = 2025, region = None\<rparr>"
       and hs = "[\<lparr>date = ''2025-12-25'', name = ''Christmas Day'', description = None,
            type = ''public'', observed = None\<rparr>,
          \<lparr>date = ''2025-01-01'', name = ''New Year's Day'', description = None,
            type = ''public'', observed = None\<rparr>]"]]]
  by (simp add: formatDateTimeUTC_def isDigit_def)

lemma sameButStamp_refl: "list_all2 sameButStamp ls ls"
  by (simp add: list_all2_refl sameButStamp_def)

lemma block_sameButStamp:
  "list_all2 sameButStamp (eventBlock ts c y h) (eventBlock ts' c y h)"
  by (simp add: eventBlock_def pushEvent_def Let_def sameButStamp_def isStamp_def)

lemma blocks_sameButStamp:
  "list_all2 sameButStamp
     (concat (map (eventBlock ts c y) hs)) (concat (map (eventBlock ts' c y) hs))"
  by (induction hs) (simp_all add: list_all2_appendI block_sameButStamp)

lemma icsContent_sameButStamp:
  "list_all2 sameButStamp (icsContent now hs opts) (icsContent now' hs opts)"
  unfolding icsContent_blocks
  by (intro list_all2_appendI sameButStamp_refl blocks_sameButStamp)

lemma sameButStamp_others:
  "list_all2 sameButStamp xs ys \<Longrightarrow>
     filter (\<lambda>l. \<not> isStamp l) xs = filter (\<lambda>l. \<not> isStamp l) ys"
  by (induction rule: list_all2_induct) (auto simp: sameButStamp_def)

text \<open>
  C4. Two renders of the same records and options, at any two clock readings, have the
  same number of lines, and at every position the two lines are equal or are both
  \<^verbatim>\<open>DTSTAMP\<close> lines; the lines that are not \<^verbatim>\<open>DTSTAMP\<close> lines are the same in both.
  The text returned is the lines joined by CRLF, and it is the same text when the two
  clock readings are the same.
\<close>

theorem renders_differ_in_stamps_only:
  "list_all2 sameButStamp (icsContent now hs opts) (icsContent now' hs opts) \<and>
   filter (\<lambda>l. \<not> isStamp l) (icsContent now hs opts) =
     filter (\<lambda>l. \<not> isStamp l) (icsContent now' hs opts) \<and>
   fst (generateICS clk hs opts) = joinWith [CR, LF] (icsContent (clk 0) hs opts) \<and>
   (clk 0 = clk' 0 \<longrightarrow> fst (generateICS clk hs opts) = fst (generateICS clk' hs opts))"
  by (simp add: icsContent_sameButStamp sameButStamp_others[OF icsContent_sameButStamp]
      generateICS_reads_once)

text \<open>Two clocks that agree on the reading taken and differ afterwards.\<close>

theorem renders_differ_in_stamps_only_witness:
  "fst (generateICS (\<lambda>k. if k = 0 then ''2025-01-01T12:34:56.789Z'' else ''2026-01-01T00:00:00.000Z'')
          [\<lparr>date = ''2025-12-25'', name = ''Christmas Day'', description = None,
             type = ''public'', observed = None\<rparr>]
          \<lparr>country = ''US'', year = 2025, region = None\<rparr>)
   = fst (generateICS (\<lambda>k. ''2025-01-01T12:34:56.789Z'')
          [\<lparr>date = ''2025-12-25'', name = ''Christmas Day'', description = None,
             type = ''public'', observed = None\<rparr>]
          \<lparr>country = ''US'', year = 2025, region = None\<rparr>)"
  using conjunct2 [OF conjunct2 [OF conjunct2 [OF renders_differ_in_stamps_only
    [where now = "[]" and now' = "[]" and clk = "\<lambda>k. if k = 0 then ''2025-01-01T12:34:56.789Z'' else ''2026-01-01T00:00:00.000Z''"
       and clk' = "\<lambda>k. ''2025-01-01T12:34:56.789Z''"
       and hs = "[\<lparr>date = ''2025-12-25'', name = ''Christmas Day'', description = None,
                    type = ''public'', observed = None\<rparr>]"
       and opts = "\<lparr>country = ''US'', year = 2025, region = None\<rparr>"]]]]
  by simp




lemma calname_line:
  "icsContent now hs opts ! 5 = ''X-WR-CALNAME:'' @ calendarName opts"
  by (simp add: icsContent_blocks nth_append header_length) (simp add: calendarHeader_def Let_def)




section \<open>Properties of the resolver\<close>

lemma mapData_throws: "RawNull \<in> set items \<Longrightarrow> mapData items = Inl TypeError"
proof (induction items)
  case Nil
  then show ?case by simp
next
  case (Cons x xs)
  then show ?case
    by (cases x) (auto split: sum.splits)
qed

lemma mapData_maps:
  "RawNull \<notin> set items \<Longrightarrow> \<exists>hs. mapData items = Inr hs \<and> length hs = length items"
proof (induction items)
  case Nil
  then show ?case by simp
next
  case (Cons x xs)
  then show ?case
    by (cases x) auto
qed

lemma tryApi_fails:
  "sourceFails net u \<Longrightarrow> catch (tryApi net u) (\<lambda>error. Inr Normal) = Inr Normal"
  by (auto simp: sourceFails_def tryApi_def catch_def mapData_throws
      split: sum.splits responseData.splits)

lemma tryApi_array:
  "net u = Inr (Items items) \<Longrightarrow> RawNull \<notin> set items \<Longrightarrow>
     \<exists>hs. mapData items = Inr hs \<and> tryApi net u = Inr (Return hs)"
  using mapData_maps[of items] by (auto simp: tryApi_def)


lemma forApis_all_fail:
  "list_all (sourceFails net) urls \<Longrightarrow> forApis net urls = (Inr Normal, urls)"
  by (induction urls) (simp_all add: tryApi_fails)

text \<open>
  The loop ends at the first source that answers with an array without a \<^verbatim>\<open>null\<close> item:
  the sources before it were requested, those after it are not.
\<close>

lemma forApis_first_array:
  assumes "list_all (sourceFails net) pre" "net u = Inr (Items items)" "RawNull \<notin> set items"
  shows "forApis net (pre @ u # post) = (map_sum id Return (mapData items), pre @ [u])"
  using assms(1)
proof (induction pre)
  case Nil
  obtain hs where "mapData items = Inr hs" "tryApi net u = Inr (Return hs)"
    using tryApi_array[of net u items] assms(2,3) by blast
  then show ?case by (simp add: catch_def)
next
  case (Cons p pre)
  then show ?case by (simp add: tryApi_fails)
qed


lemma fetchHolidays_all_fail:
  "list_all (sourceFails net) (apis c y) \<Longrightarrow>
      fetchHolidays net c y r =
        (Inr (map objectOf
               (case enhancedHolidays (c @ ''-'' @ showInt y) of Some hs \<Rightarrow> hs | None \<Rightarrow> [])),
         apis c y)"
  by (drule forApis_all_fail) (simp add: fetchHolidays_def catch_def Let_def split: option.splits)

lemma fetchHolidays_first_array:
  assumes "apis c y = pre @ u # post" "list_all (sourceFails net) pre"
    "net u = Inr (Items items)" "RawNull \<notin> set items"
  shows "fetchHolidays net c y r = (mapData items, pre @ [u])"
proof -
  obtain hs where hs: "mapData items = Inr hs"
    using mapData_maps[OF assms(4)] by blast
  have "forApis net (apis c y) = (Inr (Return hs), pre @ [u])"
    using forApis_first_array[OF assms(2,3,4), of post] hs assms(1) by simp
  then show ?thesis by (simp add: fetchHolidays_def catch_def hs)
qed

lemma all_requests_fail: "list_all (sourceFails (\<lambda>u. Inl RequestFailed)) (apis c y)"
  by (simp add: apis_def sourceFails_def)


lemma apis_first: "apis c y = [] @ hd (apis c y) # tl (apis c y)"
  by (simp add: apis_def)

lemma showInt_2025: "showInt 2025 = ''2025''"
  by code_simp

lemma table_US_2025: "map_option length (enhancedHolidays ''US-2025'') = Some 10"
  by code_simp





lemma header_region:
  "calendarHeader \<lparr>country = c, year = y, region = r\<rparr> =
     (calendarHeader \<lparr>country = c, year = y, region = r'\<rparr>)
       [5 := ''X-WR-CALNAME:'' @ calendarName \<lparr>country = c, year = y, region = r\<rparr>]"
  by (simp add: calendarHeader_def Let_def)

lemma icsContent_region:
  "icsContent now hs \<lparr>country = c, year = y, region = r\<rparr> =
     (icsContent now hs \<lparr>country = c, year = y, region = r'\<rparr>)
       [5 := ''X-WR-CALNAME:'' @ calendarName \<lparr>country = c, year = y, region = r\<rparr>]"
  unfolding icsContent_blocks
  by (subst header_region[of c y r r']) (simp add: list_update_append header_length)

lemma validate_region:
  "validateHolidayRequest (q\<lparr>regionParam := r\<rparr>) =
     map_sum id (\<lambda>v. v\<lparr>region := map_option toUpperCase r\<rparr>)
       (validateHolidayRequest (q\<lparr>regionParam := r'\<rparr>))"
  by (simp add: validateHolidayRequest_def split: option.splits)

lemma route_requests:
  "fst (snd (holidaysRoute net clk q)) =
     (case validateHolidayRequest q of
        Inl resp \<Rightarrow> []
      | Inr v \<Rightarrow> snd (fetchHolidays net (country v) (year v) (region v)))"
  by (simp add: holidaysRoute_def Let_def split: sum.splits prod.splits)

lemma fetchHolidays_region: "fetchHolidays net c y r = fetchHolidays net c y r'"
  by (simp add: fetchHolidays_def)

lemma route_region_requests:
  "fst (snd (holidaysRoute net clk (q\<lparr>regionParam := r\<rparr>))) =
   fst (snd (holidaysRoute net clk (q\<lparr>regionParam := r'\<rparr>)))"
proof (cases "validateHolidayRequest (q\<lparr>regionParam := r'\<rparr>)")
  case (Inl resp)
  then show ?thesis
    by (simp add: route_requests validate_region[where q = q and r = r and r' = r'])
next
  case (Inr v)
  then show ?thesis
    using fetchHolidays_region[of net "country v" "year v" "map_option toUpperCase r" "region v"]
    by (simp add: route_requests validate_region[where q = q and r = r and r' = r'])
qed

text \<open>
  C6. For the same network, country and year, \<open>fetchHolidays\<close> returns the same records
  and requests the same URLs whatever the region is, absent or present: neither the
  URLs nor the key of the static table hold the region. In the document the region
  shows in the calendar name alone: two renders that differ in the region differ in the
  \<^verbatim>\<open>X-WR-CALNAME\<close> line only. The route requests the same URLs for two queries that
  differ in the region only.
\<close>

theorem fetchHolidays_ignores_region:
  "fetchHolidays net c y r = fetchHolidays net c y r' \<and>
   icsContent now hs \<lparr>country = c, year = y, region = r\<rparr> =
     (icsContent now hs \<lparr>country = c, year = y, region = r'\<rparr>)
       [5 := ''X-WR-CALNAME:'' @ calendarName \<lparr>country = c, year = y, region = r\<rparr>] \<and>
   fst (snd (holidaysRoute net clk (q\<lparr>regionParam := r\<rparr>))) =
     fst (snd (holidaysRoute net clk (q\<lparr>regionParam := r'\<rparr>)))"
proof (intro conjI)
  show "fetchHolidays net c y r = fetchHolidays net c y r'"
    by (rule fetchHolidays_region)
  show "icsContent now hs \<lparr>country = c, year = y, region = r\<rparr> =
     (icsContent now hs \<lparr>country = c, year = y, region = r'\<rparr>)
       [5 := ''X-WR-CALNAME:'' @ calendarName \<lparr>country = c, year = y, region = r\<rparr>]"
    by (rule icsContent_region)
  show "fst (snd (holidaysRoute net clk (q\<lparr>regionParam := r\<rparr>))) =
     fst (snd (holidaysRoute net clk (q\<lparr>regionParam := r'\<rparr>)))"
    by (rule route_region_requests)
qed

text \<open>With every request failing, California or no region: the same ten records.\<close>

theorem fetchHolidays_ignores_region_witness:
  "fetchHolidays (\<lambda>u. Inl RequestFailed) ''US'' 2025 (Some ''CA'') =
     fetchHolidays (\<lambda>u. Inl RequestFailed) ''US'' 2025 None"
  using conjunct1 [OF fetchHolidays_ignores_region
    [of "\<lambda>u. Inl RequestFailed" "''US''" 2025 "Some ''CA''" None "[]" "[]"
        "\<lambda>k. []" "\<lparr>countryParam = None, yearParam = None, regionParam = None\<rparr>"]]
  by simp

section \<open>Properties of the validation\<close>















text \<open>
  \<open>parseInt\<close> reads the longest numeric prefix: white space, a sign, a hexadecimal
  prefix and text after the digits are all accepted.
\<close>

lemma parseInt_lenient:
  "parseInt ''2025abc'' = Some 2025 \<and> parseInt '' +2025.9'' = Some 2025 \<and>
   parseInt ''0x7E9'' = Some 2025 \<and> parseInt ''abc'' = None"
  by code_simp













section \<open>The scenarios of the specification\<close>

lemma table_US_2025_first:
  "map_option (\<lambda>hs. name (hd hs)) (enhancedHolidays ''US-2025'') = Some ''New Year's Day''"
  by code_simp

lemma table_plain:
  "list_all (\<lambda>(key, hs). list_all plainHoliday hs) enhancedHolidaysTable"
  by code_simp

lemma validate_US_2025:
  "validateHolidayRequest
      \<lparr>countryParam = Some ''US'', yearParam = Some ''2025'', regionParam = None\<rparr>
     = Inr \<lparr>country = ''US'', year = 2025, region = None\<rparr>"
  by code_simp

lemma showNat_10: "showNat 10 = ''10''"
  by code_simp

text \<open>The records of the static table have a date and a name: rendering them does not throw.\<close>

lemma asHoliday_objectOf: "asHoliday (objectOf h) = Inr h"
  by (simp add: asHoliday_def objectOf_def)

lemma asHolidays_objectOf: "asHolidays (map objectOf hs) = Inr hs"
  by (induction hs) (simp_all add: asHoliday_objectOf)

lemma generateICSOfObjects_records:
  "generateICSOfObjects clk (map objectOf hs) opts =
     (Inr (joinWith [CR, LF] (icsContent (clk 0) hs opts)), \<lambda>k. clk (Suc k))"
  by (simp add: generateICSOfObjects_def asHolidays_objectOf generateICS_def newDate_def)

lemma headers_US_2025:
  "resSet []
     [(''Content-Type'', ''text/calendar; charset=utf-8''),
      (''Content-Disposition'',
         ''attachment; filename='' @ [CHR 0x22] @ ''holidays-US-2025.ics'' @ [CHR 0x22]),
      (''Cache-Control'', ''public, max-age=86400''),
      (''X-Holidays-Count'', ''10''),
      (''X-Country'', ''US''),
      (''X-Year'', ''2025''),
      (''X-API-Version'', ''1.0.0''),
      (''X-RapidAPI-Service'', ''Holiday Calendar API'')]
   = Inr
     [(''Content-Type'', ''text/calendar; charset=utf-8''),
      (''Content-Disposition'',
         ''attachment; filename='' @ [CHR 0x22] @ ''holidays-US-2025.ics'' @ [CHR 0x22]),
      (''Cache-Control'', ''public, max-age=86400''),
      (''X-Holidays-Count'', ''10''),
      (''X-Country'', ''US''),
      (''X-Year'', ''2025''),
      (''X-API-Version'', ''1.0.0''),
      (''X-RapidAPI-Service'', ''Holiday Calendar API'')]"
  by code_simp

text \<open>
  The request for \<open>US\<close>, 2025 and no region, every source failing: the calendar is
  sent with ten event blocks, the calendar name \<^verbatim>\<open>US Public Holidays 2025\<close> and the
  summary \<^verbatim>\<open>New Year's Day\<close> in the first block.
\<close>

lemma us_2025_scenario:
  "\<exists>hdrs text.
     holidaysRoute (\<lambda>u. Inl RequestFailed) (\<lambda>k. ''2025-01-01T12:34:56.789Z'')
         \<lparr>countryParam = Some ''US'', yearParam = Some ''2025'', regionParam = None\<rparr>
       = (Calendar hdrs text, apis ''US'' 2025, \<lambda>k. ''2025-01-01T12:34:56.789Z'') \<and>
     length (eventBlocks (splitCRLF [] text)) = 10 \<and>
     splitCRLF [] text ! 5 = ''X-WR-CALNAME:US Public Holidays 2025'' \<and>
     splitCRLF [] text ! 14 = ''SUMMARY:New Year's Day'' \<and>
     map_of hdrs ''X-Holidays-Count'' = Some ''10''"
proof -
  let ?clk = "\<lambda>k::nat. ''2025-01-01T12:34:56.789Z''"
  let ?o = "\<lparr>country = ''US'', year = 2025, region = None\<rparr>"
  obtain hs where t: "enhancedHolidays ''US-2025'' = Some hs" and l: "length hs = 10"
    using table_US_2025 by (cases "enhancedHolidays ''US-2025''") auto
  from t table_US_2025_first have n: "name (hd hs) = ''New Year's Day''" by simp
  from t have "(''US-2025'', hs) \<in> set enhancedHolidaysTable"
    by (simp add: enhancedHolidays_def map_of_SomeD)
  with table_plain have p: "list_all plainHoliday hs"
    by (auto simp: list_all_iff)
  from l obtain h rest where hs: "hs = h # rest" by (cases hs) auto
  have f: "fetchHolidays (\<lambda>u. Inl RequestFailed) ''US'' 2025 None
             = (Inr (map objectOf hs), apis ''US'' 2025)"
    using fetchHolidays_all_fail[OF all_requests_fail, of "''US''" 2025 None]
    by (simp add: showInt_2025 t)
  let ?text = "joinWith [CR, LF] (icsContent (?clk 0) hs ?o)"
  have ne: "hs \<noteq> []" using l by auto
  have route: "\<exists>hdrs. holidaysRoute (\<lambda>u. Inl RequestFailed) ?clk
         \<lparr>countryParam = Some ''US'', yearParam = Some ''2025'', regionParam = None\<rparr>
       = (Calendar hdrs ?text, apis ''US'' 2025, ?clk) \<and>
       map_of hdrs ''X-Holidays-Count'' = Some ''10''"
    using ne headers_US_2025
    by (simp add: holidaysRoute_def validate_US_2025 f generateICSOfObjects_records truthy_def
        l showNat_10 showInt_2025)
  have s: "splitCRLF [] ?text = icsContent (?clk 0) hs ?o"
    using split_rendered[of ?clk ?o hs] p
    by (simp add: generateICS_reads_once noCR_def plainOptions_def)
  have "length (eventBlocks (icsContent (?clk 0) hs ?o)) = 10"
    by (simp add: eventBlocks_icsContent l)
  then have b: "length (eventBlocks (splitCRLF [] ?text)) = 10"
    by (simp only: s)
  have "icsContent (?clk 0) hs ?o ! 5 = ''X-WR-CALNAME:US Public Holidays 2025''"
    by (simp add: calname_line calendarName_def truthy_def showInt_2025)
  then have c5: "splitCRLF [] ?text ! 5 = ''X-WR-CALNAME:US Public Holidays 2025''"
    by (simp only: s)
  have "icsContent (?clk 0) hs ?o ! 14 = ''SUMMARY:New Year's Day''"
    using n
    by (simp add: icsContent_blocks nth_append header_length hs eventBlock_def pushEvent_def
        Let_def escapeText_def replaceAll_def)
  then have c14: "splitCRLF [] ?text ! 14 = ''SUMMARY:New Year's Day''"
    by (simp only: s)
  from route b c5 c14 show ?thesis by blast
qed

text \<open>A country outside the list is rejected with no request to a source.\<close>

lemma zz_country_rejected:
  "holidaysRoute net clk \<lparr>countryParam = Some ''ZZ'', yearParam = Some ''2025'', regionParam = None\<rparr>
     = (Json 400 ''INVALID_COUNTRY'', [], clk)"
proof -
  have "toUpperCase ''ZZ'' \<notin> set VALID_COUNTRIES" by code_simp
  then show ?thesis
    by (simp add: holidaysRoute_def validateHolidayRequest_def truthy_def)
qed

text \<open>
  A valid country without data anywhere: the resolver returns the empty sequence, the
  route answers 404 and does not render.
\<close>

lemma no_data_not_found:
  "holidaysRoute (\<lambda>u. Inl RequestFailed) clk
      \<lparr>countryParam = Some ''AD'', yearParam = Some ''2025'', regionParam = None\<rparr>
     = (Json 404 ''NO_HOLIDAYS_FOUND'', apis ''AD'' 2025, clk)"
proof -
  have v: "validateHolidayRequest
      \<lparr>countryParam = Some ''AD'', yearParam = Some ''2025'', regionParam = None\<rparr>
     = Inr \<lparr>country = ''AD'', year = 2025, region = None\<rparr>"
    by code_simp
  have f: "fetchHolidays (\<lambda>u. Inl RequestFailed) ''AD'' 2025 None = (Inr [], apis ''AD'' 2025)"
    by code_simp
  show ?thesis by (simp add: holidaysRoute_def v f)
qed

text \<open>
  The first source answers with the empty array: for \<open>US\<close> and 2025 the route answers
  404 after one request, although the static table has the ten records.
\<close>

lemma empty_answer_not_found:
  "holidaysRoute (\<lambda>u. Inr (Items [])) clk
      \<lparr>countryParam = Some ''US'', yearParam = Some ''2025'', regionParam = None\<rparr>
     = (Json 404 ''NO_HOLIDAYS_FOUND'', [hd (apis ''US'' 2025)], clk)"
proof -
  have "fetchHolidays (\<lambda>u. Inr (Items [])) ''US'' 2025 None
          = (mapData [], [] @ [hd (apis ''US'' 2025)])"
    by (rule fetchHolidays_first_array[OF apis_first]) simp_all
  then show ?thesis by (simp add: holidaysRoute_def validate_US_2025)
qed

text \<open>
  What the handler's \<^verbatim>\<open>catch\<close> answers. The first source answers with an array holding
  the empty object: the resolver returns one object without date and name, the encoder
  throws on it after reading the clock, and the response is status 500.
\<close>

lemma empty_object_internal_error:
  "holidaysRoute (\<lambda>u. Inr (Items [RawHoliday None None None None])) clk
      \<lparr>countryParam = Some ''US'', yearParam = Some ''2025'', regionParam = None\<rparr>
     = (Json 500 ''INTERNAL_ERROR'', [hd (apis ''US'' 2025)], \<lambda>k. clk (Suc k))"
proof -
  have "fetchHolidays (\<lambda>u. Inr (Items [RawHoliday None None None None])) ''US'' 2025 None
          = (mapData [RawHoliday None None None None], [] @ [hd (apis ''US'' 2025)])"
    by (rule fetchHolidays_first_array[OF apis_first]) simp_all
  then show ?thesis
    by (simp add: holidaysRoute_def validate_US_2025 generateICSOfObjects_def asHoliday_def
        newDate_def)
qed

text \<open>
  A region with a line break in it: validation passes it on upper-cased, the encoder
  renders, and setting the \<^verbatim>\<open>Content-Disposition\<close> header with the region in the file
  name throws; the response is status 500.
\<close>

lemma region_line_break_internal_error:
  "holidaysRoute (\<lambda>u. Inl RequestFailed) clk
      \<lparr>countryParam = Some ''US'', yearParam = Some ''2025'',
       regionParam = Some [CHR ''c'', CHR ''a'', LF]\<rparr>
     = (Json 500 ''INTERNAL_ERROR'', apis ''US'' 2025, \<lambda>k. clk (Suc k))"
proof -
  let ?r = "Some [CHR ''C'', CHR ''A'', LF]"
  have v: "validateHolidayRequest
      \<lparr>countryParam = Some ''US'', yearParam = Some ''2025'',
       regionParam = Some [CHR ''c'', CHR ''a'', LF]\<rparr>
     = Inr \<lparr>country = ''US'', year = 2025, region = ?r\<rparr>"
    by code_simp
  obtain hs where t: "enhancedHolidays ''US-2025'' = Some hs" and l: "length hs = 10"
    using table_US_2025 by (cases "enhancedHolidays ''US-2025''") auto
  have f: "fetchHolidays (\<lambda>u. Inl RequestFailed) ''US'' 2025 ?r
             = (Inr (map objectOf hs), apis ''US'' 2025)"
    using fetchHolidays_all_fail[OF all_requests_fail, of "''US''" 2025 ?r]
    by (simp add: showInt_2025 t)
  have ne: "hs \<noteq> []" using l by auto
  have bad: "\<not> validHeaderChar LF"
    by (simp add: validHeaderChar_def)
  show ?thesis
    using ne
    by (simp add: holidaysRoute_def v f generateICSOfObjects_records truthy_def resSet_def bad)
qed

end
